theory Spec2Isabelle
  imports Main "HOL-Library.Word"
begin

unbundle bit_operations_syntax

section \<open>Bytes and the 16-bit reading\<close>

text \<open>
  Go's \<open>byte\<close> is an 8-bit word and \<open>int16\<close> a 16-bit word read as two's complement
  (\<open>sint\<close>). The repository holds two variants of the same command: \<^verbatim>\<open>main.go\<close>
  (on \<^verbatim>\<open>github.com/google/gousb\<close>) and an older file (on
  \<^verbatim>\<open>github.com/kylelemons/gousb/usb\<close>). Definitions of the older file carry the
  suffix \<open>_old\<close>.
\<close>

type_synonym byte = "8 word"
type_synonym int16 = "16 word"

text \<open>
  \<^verbatim>\<open>binary.LittleEndian.Uint16(b)\<close> is \<^verbatim>\<open>uint16(b[0]) | uint16(b[1])<<8\<close>.
\<close>

definition le_uint16 :: "byte list \<Rightarrow> 16 word" where
  "le_uint16 b = ucast (b ! 0) OR push_bit 8 (ucast (b ! 1))"

text \<open>
  \<^verbatim>\<open>read_le_int16\<close> (main.go, lines 36-40): \<^verbatim>\<open>binary.Read\<close> on a
  \<^verbatim>\<open>bytes.Buffer\<close> takes two bytes with \<^verbatim>\<open>io.ReadFull\<close> and stores
  \<^verbatim>\<open>int16(order.Uint16(bs))\<close> in \<^verbatim>\<open>ret\<close>. On fewer than two bytes it returns
  an error and stores nothing; the function ignores the error, so the named result keeps
  its zero value.
\<close>

definition read_le_int16 :: "byte list \<Rightarrow> int16" where
  "read_le_int16 data = (if length data < 2 then 0 else le_uint16 (take 2 data))"

text \<open>The same function of the older file (lines 38-42).\<close>

definition read_le_int16_old :: "byte list \<Rightarrow> int16" where
  "read_le_int16_old data = (if length data < 2 then 0 else le_uint16 (take 2 data))"

text \<open>
  The reference encoder the specification compares against: the low byte first, then the
  high byte.
\<close>

definition encode_le_int16 :: "int16 \<Rightarrow> byte list" where
  "encode_le_int16 v = [ucast v, ucast (drop_bit 8 v)]"

text \<open>
  The range check of \<^verbatim>\<open>main\<close> (main.go, lines 185-189): the first branch logs the
  concentration, the second logs the invalid value. Both keep the decoded value.
\<close>

datatype reading = Valid int16 | OutOfRange int16

definition classify :: "int16 \<Rightarrow> reading" where
  "classify voc = (if sint voc \<ge> 450 \<and> sint voc \<le> 2000 then Valid voc else OutOfRange voc)"

text \<open>The range check of the older file (lines 149-153).\<close>

definition classify_old :: "int16 \<Rightarrow> reading" where
  "classify_old voc = (if sint voc \<ge> 450 \<and> sint voc \<le> 2000 then Valid voc else OutOfRange voc)"

section \<open>The process: flags, transport, trace\<close>

text \<open>
  The command-line flags (main.go, lines 27-34; the older file, lines 29-36), read by
  \<^verbatim>\<open>flag.Parse\<close>. Go's \<^verbatim>\<open>int\<close> is modelled by \<open>int\<close>; the conversions
  \<^verbatim>\<open>uint8(*config)\<close> of the older file keep the low eight bits.
\<close>

record flags =
  flag_device :: string
  flag_config :: int
  flag_iface :: int
  flag_setup :: int
  flag_endpoint :: int
  flag_debug :: int

definition default_flags :: flags where
  "default_flags = \<lparr>flag_device = ''03eb:2013'', flag_config = 1, flag_iface = 0,
     flag_setup = 0, flag_endpoint = 1, flag_debug = 3\<rparr>"

text \<open>A Go \<^verbatim>\<open>error\<close>: \<open>None\<close> is \<^verbatim>\<open>nil\<close>, \<open>Some m\<close> an error with message \<open>m\<close>.\<close>

type_synonym error = "string option"

text \<open>
  What the program prints. A line is kept as the format string of the source with its
  arguments, not formatted: \<open>Log\<close> is package \<^verbatim>\<open>log\<close>, \<open>Fmt\<close> is
  \<^verbatim>\<open>fmt.Printf\<close>, \<open>Spew\<close> is \<^verbatim>\<open>spew.Printf\<close> and \<open>Dump\<close> is
  \<^verbatim>\<open>spew.Dump\<close>. An argument is an integer, a string, a byte slice, an error or an
  opaque object of the transport (named by the variable that holds it).
\<close>

datatype arg = I int | S string | B "byte list" | E error | Obj string

datatype out =
    Log string "arg list"
  | Fmt string "arg list"
  | Spew string "arg list"
  | Dump arg

text \<open>
  The calls the program makes into the USB library, in order. A device is a handle
  number; \<open>None\<close> is a nil \<^verbatim>\<open>*Device\<close>. \<open>Read n\<close> is a \<^verbatim>\<open>Read\<close> on the IN
  endpoint with a buffer of length \<open>n\<close>, \<open>Write bs\<close> a \<^verbatim>\<open>Write\<close> of \<open>bs\<close> on the
  OUT endpoint. \<open>OpenEndpoint\<close> and \<open>ListDevices\<close> belong to the older library.
\<close>

datatype call =
    NewContext
  | CtxDebug int
  | CtxClose
  | OpenDeviceWithVIDPID int int
  | ListDevices
  | DeviceClose "nat option"
  | DefaultInterface "nat option"
  | InterfaceDone
  | InEndpoint int
  | OutEndpoint int
  | OpenEndpoint nat byte byte byte byte
  | Read nat
  | Write "byte list"

text \<open>
  A run of the program: the library calls made, the lines printed and the exit status of
  the process.
\<close>

record run =
  calls :: "call list"
  printed :: "out list"
  status :: int

text \<open>
  Three ways to end. Returning from \<^verbatim>\<open>main\<close> runs the deferred calls \<open>ds\<close> (given
  in the order they run, last deferred first) and exits with status 0.
  \<^verbatim>\<open>log.Fatal\<close> and \<^verbatim>\<open>log.Fatalf\<close> print and call \<^verbatim>\<open>os.Exit(1)\<close>, which ends
  the process at once: deferred calls do not run. A run-time panic runs the deferred
  calls and exits with status 2.
\<close>

definition returned :: "call list \<Rightarrow> call list \<Rightarrow> out list \<Rightarrow> run" where
  "returned cs ds os = \<lparr>calls = cs @ ds, printed = os, status = 0\<rparr>"

definition fatal :: "call list \<Rightarrow> out list \<Rightarrow> run" where
  "fatal cs os = \<lparr>calls = cs, printed = os, status = 1\<rparr>"

definition panicked :: "call list \<Rightarrow> call list \<Rightarrow> out list \<Rightarrow> run" where
  "panicked cs ds os = \<lparr>calls = cs @ ds, printed = os, status = 2\<rparr>"

text \<open>
  \<^verbatim>\<open>ep_read.Read(buf)\<close>: the transport delivers the bytes \<open>fst r\<close> and the error
  \<open>snd r\<close>. As for every \<^verbatim>\<open>io.Reader\<close>, at most \<^verbatim>\<open>len(buf)\<close> of them are stored,
  at the front of the buffer, and the count returned is the number of bytes stored. What
  the buffer holds after them is the library's affair (an \<^verbatim>\<open>io.Reader\<close> may use the
  whole buffer as scratch space): \<open>sc\<close> are the bytes the library writes after the
  delivered ones, and the buffer keeps its own bytes only past those. A library that
  transfers straight into the caller's buffer writes none (\<open>sc = []\<close>); one that copies
  its own transfer buffer over the caller's writes the rest of that buffer. The result is
  the buffer after the call, the count and the error.
\<close>

definition ep_read :: "byte list \<Rightarrow> byte list \<Rightarrow> byte list \<times> error \<Rightarrow> byte list \<times> int \<times> error" where
  "ep_read sc buf r =
     (let n = min (length (fst r)) (length buf);
          w = take (length buf) (take n (fst r) @ sc)
      in (w @ drop (length w) buf, int n, snd r))"

text \<open>
  The slice expression \<^verbatim>\<open>buf[lo:hi]\<close>; out of range it panics (\<open>None\<close>).
\<close>

definition slice :: "byte list \<Rightarrow> nat \<Rightarrow> nat \<Rightarrow> byte list option" where
  "slice buf lo hi =
     (if lo \<le> hi \<and> hi \<le> length buf then Some (take (hi - lo) (drop lo buf)) else None)"

text \<open>The request command (main.go, line 168; the older file, line 132).\<close>

definition command_frame :: "byte list" where
  "command_frame = [0x40, 0x68, 0x2a, 0x54, 0x52, 0x0a, 0x40, 0x40,
                    0x40, 0x40, 0x40, 0x40, 0x40, 0x40, 0x40, 0x40]"

text \<open>
  What the transport answers to the four transfers of the exchange: the two reads that
  discard pending bytes (\<open>read1\<close>, \<open>read3\<close>), the write of the command and the read of
  the response (\<open>read2\<close>); and \<open>scratch\<close>, the bytes its \<^verbatim>\<open>Read\<close> writes into the
  buffer after the delivered ones.
\<close>

record transfers =
  read1 :: "byte list \<times> error"
  write_result :: "int \<times> error"
  read2 :: "byte list \<times> error"
  read3 :: "byte list \<times> error"
  scratch :: "byte list"

section \<open>The command on gousb (main.go)\<close>

text \<open>
  What the transport answers when the device is opened. \<^verbatim>\<open>OpenDeviceWithVIDPID\<close>
  returns a device and an error; by its documentation both are nil when no device
  matches. \<^verbatim>\<open>DefaultInterface\<close>, \<^verbatim>\<open>InEndpoint\<close> and \<^verbatim>\<open>OutEndpoint\<close> return an
  opaque object and an error, of which only the error matters here.
\<close>

record adapter = transfers +
  open_device :: "nat option \<times> error"
  default_interface :: error
  in_endpoint :: "int \<Rightarrow> error"
  out_endpoint :: "int \<Rightarrow> error"

text \<open>
  \<^verbatim>\<open>main\<close>, lines 159-197: the exchange on the two endpoints. \<open>cs\<close> are the calls
  made so far, \<open>ds\<close> the deferred calls, \<open>os\<close> the lines printed so far.
\<close>

definition exchange :: "call list \<Rightarrow> call list \<Rightarrow> out list \<Rightarrow> 'a transfers_scheme \<Rightarrow> run" where
  "exchange cs ds os t =
    (let buf = [];
         cs = cs @ [Read (length buf)];
         (buf, num, err) = ep_read (scratch t) buf (read1 t)
     in if err \<noteq> None
        then fatal cs (os @ [Log ''Failed to read pending bytes into buffer'' []])
        else
    (let os = os @ [Log ''Read %d bytes into temporary buffer'' [I num]];
         buf = command_frame;
         cs = cs @ [Write buf];
         (num, err) = write_result t
     in if num \<noteq> int (length buf)
        then fatal cs (os @ [Log ''Failed to write request command: %s'' [E err]])
        else
    (let os = os @ [Spew ''Request data - wrote %d bytes: % x\<newline>'' [I num, B buf]];
         cs = cs @ [Read (length buf)];
         (buf, num, err) = ep_read (scratch t) buf (read2 t)
     in if err \<noteq> None
        then fatal cs (os @ [Log ''Failed to read pending bytes into buffer'' []])
        else
    (let os = os @ [Spew ''Response data - read %d bytes: % x\<newline>'' [I num, B buf]]
     in case slice buf 2 4 of
          None \<Rightarrow> panicked cs ds os
        | Some s \<Rightarrow>
    (let os = os @ [Dump (B s)];
         voc = read_le_int16 s;
         os = os @ [case classify voc of
                      Valid v \<Rightarrow> Log ''VOC concentration: %d ppm CO2-equivalent'' [I (sint v)]
                    | OutOfRange v \<Rightarrow> Log ''ERROR: invalid VOC value %d received'' [I (sint v)]];
         cs = cs @ [Read (length buf)];
         (buf, num, err) = ep_read (scratch t) buf (read3 t)
     in if err \<noteq> None
        then fatal cs (os @ [Log ''Failed to read pending bytes into buffer'' []])
        else returned cs ds (os @ [Log ''Read %d bytes into temporary buffer'' [I num]]))))))"

text \<open>
  \<^verbatim>\<open>main\<close>, lines 42-157, followed by the exchange. The flags are parsed before. The
  deferred calls are \<^verbatim>\<open>ctx.Close()\<close>, \<^verbatim>\<open>dev.Close()\<close> and \<^verbatim>\<open>done()\<close>, run in
  the reverse order. With a nil error and a nil device the program goes on: the methods
  of \<^verbatim>\<open>*Device\<close> read the fields of their receiver, so \<^verbatim>\<open>dev.DefaultInterface()\<close>
  panics on the nil pointer, and so does the deferred \<^verbatim>\<open>dev.Close()\<close> before
  \<^verbatim>\<open>ctx.Close()\<close> runs.
\<close>

definition main :: "flags \<Rightarrow> adapter \<Rightarrow> run" where
  "main f a =
    (let cs = [NewContext, CtxDebug (flag_debug f)];
         os = [Log ''Scanning for device %q...'' [S (flag_device f)]];
         cs = cs @ [OpenDeviceWithVIDPID 0x03eb 0x2013];
         (dev, err) = open_device a
     in if err \<noteq> None
        then fatal cs (os @ [Log ''Could not open a device: %v'' [E err]])
        else if dev = None
        then panicked (cs @ [DefaultInterface dev]) [DeviceClose dev, CtxClose] os
        else
    (let cs = cs @ [DefaultInterface dev];
         err = default_interface a
     in if err \<noteq> None
        then fatal cs (os @ [Log ''%s.DefaultInterface(): %v'' [Obj ''dev'', E err]])
        else
    (let cs = cs @ [InEndpoint 1];
         err = in_endpoint a 1
     in if err \<noteq> None
        then fatal cs (os @ [Log ''%s.OutEndpoint(0): %v'' [Obj ''intf'', E err]])
        else
    (let cs = cs @ [OutEndpoint 2];
         err = out_endpoint a 2
     in if err \<noteq> None
        then fatal cs (os @ [Log ''%s.OutEndpoint(0): %v'' [Obj ''intf'', E err]])
        else exchange cs [InterfaceDone, DeviceClose dev, CtxClose] os a))))"

section \<open>The command on the older library\<close>

text \<open>
  A device descriptor as the callback of \<^verbatim>\<open>ListDevices\<close> uses it: the handle of the
  device, the texts of \<^verbatim>\<open>desc.Vendor\<close>, \<^verbatim>\<open>desc.Product\<close> and
  \<^verbatim>\<open>usbid.Classify(desc)\<close>, and the configurations. A configuration is its text and
  its interfaces, an interface the list of its setups, a setup its text, the text of its
  class and the texts of its endpoints.
\<close>

type_synonym setup_desc = "string \<times> string \<times> string list"
type_synonym config_desc = "string \<times> setup_desc list list"

record descriptor =
  desc_handle :: nat
  desc_vendor :: string
  desc_product :: string
  desc_protocol :: string
  desc_configs :: "config_desc list"

text \<open>
  The transport of the older library: the devices attached, the error of
  \<^verbatim>\<open>ListDevices\<close> and the error of \<^verbatim>\<open>OpenEndpoint\<close> for a device and its four
  arguments.
\<close>

record adapter_old = transfers +
  attached :: "descriptor list"
  list_err :: error
  open_endpoint :: "nat \<Rightarrow> byte \<Rightarrow> byte \<Rightarrow> byte \<Rightarrow> byte \<Rightarrow> error"

text \<open>The direction bits of an endpoint address in the older library.\<close>

definition ENDPOINT_DIR_IN :: byte where
  "ENDPOINT_DIR_IN = 0x80"

definition ENDPOINT_DIR_OUT :: byte where
  "ENDPOINT_DIR_OUT = 0x00"

text \<open>
  The callback given to \<^verbatim>\<open>ListDevices\<close> (lines 56-85): whether it returns true, and
  what it prints when it does.
\<close>

definition each_match :: "flags \<Rightarrow> descriptor \<Rightarrow> bool" where
  "each_match f desc = (desc_vendor desc @ '':'' @ desc_product desc = flag_device f)"

definition setup_printed :: "setup_desc \<Rightarrow> out list" where
  "setup_printed su =
     (case su of (text, cls, ends) \<Rightarrow>
        [Fmt ''    %s\<newline>'' [S text], Fmt ''      %s\<newline>'' [S cls]]
        @ map (\<lambda>e. Fmt ''      %v\<newline>'' [S e]) ends)"

definition config_printed :: "config_desc \<Rightarrow> out list" where
  "config_printed cfg =
     (case cfg of (text, interfaces) \<Rightarrow>
        [Fmt ''  %s:\<newline>'' [S text]]
        @ concat (map (\<lambda>alt. Fmt ''    --------------\<newline>'' [] # concat (map setup_printed alt))
                      interfaces)
        @ [Fmt ''    --------------\<newline>'' []])"

definition each_printed :: "descriptor \<Rightarrow> out list" where
  "each_printed desc =
     Fmt ''  Protocol: %s\<newline>'' [S (desc_protocol desc)]
     # concat (map config_printed (desc_configs desc))"

text \<open>
  \<^verbatim>\<open>main\<close> of the older file, lines 123-160: the exchange. It differs from the newer
  one in the test after the write (the error, not the count) and in the text of the line
  for an invalid value.
\<close>

definition exchange_old :: "call list \<Rightarrow> call list \<Rightarrow> out list \<Rightarrow> 'a transfers_scheme \<Rightarrow> run" where
  "exchange_old cs ds os t =
    (let buf = [];
         cs = cs @ [Read (length buf)];
         (buf, num, err) = ep_read (scratch t) buf (read1 t)
     in if err \<noteq> None
        then fatal cs (os @ [Log ''Failed to read pending bytes into buffer'' []])
        else
    (let os = os @ [Log ''Read %d bytes into temporary buffer'' [I num]];
         buf = command_frame;
         cs = cs @ [Write buf];
         (num, err) = write_result t
     in if err \<noteq> None
        then fatal cs (os @ [Log ''Failed to write request command: %s'' [E err]])
        else
    (let os = os @ [Spew ''Request data - wrote %d bytes: % x\<newline>'' [I num, B buf]];
         cs = cs @ [Read (length buf)];
         (buf, num, err) = ep_read (scratch t) buf (read2 t)
     in if err \<noteq> None
        then fatal cs (os @ [Log ''Failed to read pending bytes into buffer'' []])
        else
    (let os = os @ [Spew ''Response data - read %d bytes: % x\<newline>'' [I num, B buf]]
     in case slice buf 2 4 of
          None \<Rightarrow> panicked cs ds os
        | Some s \<Rightarrow>
    (let os = os @ [Dump (B s)];
         voc = read_le_int16_old s;
         os = os @ [case classify_old voc of
                      Valid v \<Rightarrow> Log ''VOC concentration: %d ppm CO2-equivalent'' [I (sint v)]
                    | OutOfRange v \<Rightarrow> Log ''ERROR: invalid value %d received'' [I (sint v)]];
         cs = cs @ [Read (length buf)];
         (buf, num, err) = ep_read (scratch t) buf (read3 t)
     in if err \<noteq> None
        then fatal cs (os @ [Log ''Failed to read pending bytes into buffer'' []])
        else returned cs ds (os @ [Log ''Read %d bytes into temporary buffer'' [I num]]))))))"

text \<open>
  \<^verbatim>\<open>main\<close> of the older file, lines 44-121, followed by the exchange.
  \<^verbatim>\<open>ListDevices\<close> calls the callback on every attached device and returns the devices
  for which it returned true. The deferred calls are \<^verbatim>\<open>ctx.Close()\<close> and the loop that
  closes every returned device.
\<close>

definition main_old :: "flags \<Rightarrow> adapter_old \<Rightarrow> run" where
  "main_old f a =
    (let cs = [NewContext, CtxDebug (flag_debug f)];
         os = [Log ''Scanning for device %q...'' [S (flag_device f)]];
         cs = cs @ [ListDevices];
         devs = filter (each_match f) (attached a);
         err = list_err a;
         os = os @ concat (map each_printed devs);
         ds = map (\<lambda>d. DeviceClose (Some (desc_handle d))) devs @ [CtxClose]
     in if err \<noteq> None
        then fatal cs (os @ [Log ''list: %s'' [E err]])
        else if length devs = 0
        then fatal cs (os @ [Log ''no devices found'' []])
        else
    (let dev = desc_handle (devs ! 0);
         os = os @ [Log ''Connecting to endpoint: '' [], Dump (Obj ''dev.Descriptor'')];
         config = word_of_int (flag_config f);
         iface = word_of_int (flag_iface f);
         setp = word_of_int (flag_setup f);
         cs = cs @ [OpenEndpoint dev config iface setp (1 OR ENDPOINT_DIR_IN)];
         err = open_endpoint a dev config iface setp (1 OR ENDPOINT_DIR_IN)
     in if err \<noteq> None
        then fatal cs (os @ [Log ''Failed to open read endpoint: %s'' [E err]])
        else
    (let os = os @ [Log ''Got read endpoint: '' [], Dump (Obj ''ep_read'')];
         cs = cs @ [OpenEndpoint dev config iface setp (2 OR ENDPOINT_DIR_OUT)];
         err = open_endpoint a dev config iface setp (2 OR ENDPOINT_DIR_OUT)
     in if err \<noteq> None
        then fatal cs (os @ [Log ''Failed to open write endpoint: %s'' [E err]])
        else exchange_old cs ds (os @ [Log ''Got write endpoint: '' [], Dump (Obj ''ep_write'')]) a)))"

section \<open>Runs that reach the end, and sample transports\<close>

text \<open>
  The device is opened, its default interface claimed and both endpoints opened
  (main.go, lines 132-157).
\<close>

definition opens :: "adapter \<Rightarrow> bool" where
  "opens a \<longleftrightarrow>
     fst (open_device a) \<noteq> None \<and> snd (open_device a) = None \<and> default_interface a = None
     \<and> in_endpoint a 1 = None \<and> out_endpoint a 2 = None"

text \<open>
  All four transfers pass the test that main.go makes after each: no error from the
  three reads, and a count of 16 from the write.
\<close>

definition completes :: "'a transfers_scheme \<Rightarrow> bool" where
  "completes t \<longleftrightarrow>
     snd (read1 t) = None \<and> fst (write_result t) = 16 \<and> snd (read2 t) = None
     \<and> snd (read3 t) = None"

text \<open>
  The same for the older file: \<^verbatim>\<open>ListDevices\<close> returns no error and at least one
  device, both endpoints of the first device open (lines 95-121), and no transfer returns
  an error.
\<close>

definition opens_old :: "flags \<Rightarrow> adapter_old \<Rightarrow> bool" where
  "opens_old f a \<longleftrightarrow>
     list_err a = None \<and> filter (each_match f) (attached a) \<noteq> []
     \<and> open_endpoint a (desc_handle (filter (each_match f) (attached a) ! 0))
           (word_of_int (flag_config f)) (word_of_int (flag_iface f))
           (word_of_int (flag_setup f)) 0x81 = None
     \<and> open_endpoint a (desc_handle (filter (each_match f) (attached a) ! 0))
           (word_of_int (flag_config f)) (word_of_int (flag_iface f))
           (word_of_int (flag_setup f)) 0x02 = None"

definition completes_old :: "'a transfers_scheme \<Rightarrow> bool" where
  "completes_old t \<longleftrightarrow>
     snd (read1 t) = None \<and> snd (write_result t) = None \<and> snd (read2 t) = None
     \<and> snd (read3 t) = None"

text \<open>
  The buffer after the read of the response, and the value decoded from its bytes 2 and 3.
\<close>

definition response :: "'a transfers_scheme \<Rightarrow> byte list" where
  "response t = fst (ep_read (scratch t) command_frame (read2 t))"

definition response_voc :: "'a transfers_scheme \<Rightarrow> int16" where
  "response_voc t = read_le_int16 (take 2 (drop 2 (response t)))"

text \<open>
  The rest of a transfer buffer that the library allocates afresh for each read and
  copies whole over the caller's buffer, as gousb does: zero bytes.
\<close>

definition zero_tail :: "byte list" where
  "zero_tail = [0, 0, 0, 0, 0, 0, 0, 0, 0, 0, 0, 0, 0, 0, 0, 0]"

text \<open>
  A transport for main.go on which every call succeeds: device 1 is found, nothing is
  pending on the IN endpoint, the write takes all 16 bytes and the response is \<open>resp\<close>.
  The library overwrites the whole buffer on a read.
\<close>

definition sensor :: "byte list \<Rightarrow> adapter" where
  "sensor resp =
     \<lparr>read1 = ([], None), write_result = (16, None), read2 = (resp, None),
      read3 = ([], None), scratch = zero_tail, open_device = (Some 1, None), default_interface = None,
      in_endpoint = (\<lambda>n. None), out_endpoint = (\<lambda>n. None)\<rparr>"

text \<open>
  The same for the older file, with the sensor as the only attached device. The library
  reads straight into the caller's buffer.
\<close>

definition sensor_desc :: descriptor where
  "sensor_desc =
     \<lparr>desc_handle = 1, desc_vendor = ''03eb'', desc_product = ''2013'',
      desc_protocol = ''Unknown'', desc_configs = []\<rparr>"

definition sensor_old :: "byte list \<Rightarrow> adapter_old" where
  "sensor_old resp =
     \<lparr>read1 = ([], None), write_result = (16, None), read2 = (resp, None),
      read3 = ([], None), scratch = [], attached = [sensor_desc], list_err = None,
      open_endpoint = (\<lambda>dev config iface setp ep. None)\<rparr>"

section \<open>Decoding and the range check\<close>

lemma signed16_cases:
  fixes u :: int
  assumes "0 \<le> u" and "u < 65536"
  shows "signed_take_bit 15 u = (if u < 32768 then u else u - 65536)"
proof (cases "u < 32768")
  case True
  with assms show ?thesis by (simp add: signed_take_bit_int_eq_self)
next
  case False
  have "signed_take_bit 15 u = signed_take_bit 15 (u - 65536)"
    by (simp add: signed_take_bit_eq_iff_take_bit_eq take_bit_eq_mod)
  also have "\<dots> = u - 65536"
    using assms False by (simp add: signed_take_bit_int_eq_self)
  finally show ?thesis using False by simp
qed

lemma le_uint16_cat: "le_uint16 [lo, hi] = word_cat hi lo"
  unfolding le_uint16_def
  by (rule bit_word_eqI) (auto simp add: bit_simps dest: bit_imp_le_length)

lemma uint_le_uint16: "uint (le_uint16 [lo, hi]) = uint lo + 256 * uint hi"
proof -
  have lo: "uint lo < 256" using uint_lt2p [of lo] by simp
  have hi: "uint hi < 256" using uint_lt2p [of hi] by simp
  have "uint (le_uint16 [lo, hi]) = (uint hi * 256 + uint lo) mod 65536"
    by (simp add: le_uint16_cat word_cat_eq uint_word_ariths unsigned_push_bit_eq
        push_bit_eq_mult take_bit_eq_mod unsigned_ucast_eq mod_simps)
  also have "\<dots> = uint hi * 256 + uint lo"
    using lo hi by simp
  finally show ?thesis by simp
qed

lemma sint_le_uint16:
  "sint (le_uint16 [lo, hi]) =
     (let u = uint lo + 256 * uint hi in if u < 32768 then u else u - 65536)"
proof -
  have lo: "uint lo < 256" using uint_lt2p [of lo] by simp
  have hi: "uint hi < 256" using uint_lt2p [of hi] by simp
  have "sint (le_uint16 [lo, hi]) = signed_take_bit 15 (uint lo + 256 * uint hi)"
    by (simp add: sint_uint uint_le_uint16)
  also have "\<dots> = (let u = uint lo + 256 * uint hi in if u < 32768 then u else u - 65536)"
    unfolding Let_def using lo hi by (intro signed16_cases) simp_all
  finally show ?thesis .
qed

lemma encode_le_uint16: "encode_le_int16 (le_uint16 [lo, hi]) = [lo, hi]"
proof -
  have "ucast (le_uint16 [lo, hi]) = lo"
    unfolding le_uint16_def
    by (rule bit_word_eqI) (auto simp add: bit_simps dest: bit_imp_le_length)
  moreover have "ucast (drop_bit 8 (le_uint16 [lo, hi])) = hi"
    unfolding le_uint16_def
    by (rule bit_word_eqI) (auto simp add: bit_simps dest: bit_imp_le_length)
  ultimately show ?thesis by (simp add: encode_le_int16_def)
qed

lemma le_uint16_encode: "le_uint16 (encode_le_int16 v) = v"
  unfolding le_uint16_def encode_le_int16_def
  by (rule bit_word_eqI) (auto simp add: bit_simps)

text \<open>
  Claim C2. For every pair of bytes \<open>lo\<close>, \<open>hi\<close>, \<open>read_le_int16\<close> on the two bytes
  \<open>[lo, hi]\<close> is the 16-bit word \<open>lo | (hi << 8)\<close> read as two's complement: its signed
  value is \<open>lo + 256 * hi\<close> below 32768 and that number less 65536 from there on. It is
  the inverse of the little-endian encoder, in both directions. The same holds for the
  \<open>read_le_int16\<close> of the older file.
\<close>

theorem read_le_int16_pair:
  "read_le_int16 [lo, hi] = ucast lo OR push_bit 8 (ucast hi)
   \<and> sint (read_le_int16 [lo, hi]) =
       (let u = uint lo + 256 * uint hi in if u < 32768 then u else u - 65536)
   \<and> encode_le_int16 (read_le_int16 [lo, hi]) = [lo, hi]
   \<and> read_le_int16 (encode_le_int16 v) = v
   \<and> read_le_int16_old [lo, hi] = ucast lo OR push_bit 8 (ucast hi)
   \<and> sint (read_le_int16_old [lo, hi]) =
       (let u = uint lo + 256 * uint hi in if u < 32768 then u else u - 65536)
   \<and> encode_le_int16 (read_le_int16_old [lo, hi]) = [lo, hi]
   \<and> read_le_int16_old (encode_le_int16 v) = v"
proof -
  have dec: "read_le_int16 [lo, hi] = le_uint16 [lo, hi]"
    by (simp add: read_le_int16_def)
  have dec_old: "read_le_int16_old [lo, hi] = le_uint16 [lo, hi]"
    by (simp add: read_le_int16_old_def)
  have "read_le_int16 (encode_le_int16 v) = le_uint16 (encode_le_int16 v)"
    by (simp add: read_le_int16_def encode_le_int16_def)
  then have inv: "read_le_int16 (encode_le_int16 v) = v"
    by (simp add: le_uint16_encode)
  have "read_le_int16_old (encode_le_int16 v) = le_uint16 (encode_le_int16 v)"
    by (simp add: read_le_int16_old_def encode_le_int16_def)
  then have inv_old: "read_le_int16_old (encode_le_int16 v) = v"
    by (simp add: le_uint16_encode)
  have bits: "le_uint16 [lo, hi] = ucast lo OR push_bit 8 (ucast hi)"
    by (simp add: le_uint16_def)
  show ?thesis
    using dec dec_old inv inv_old bits sint_le_uint16 [of lo hi] encode_le_uint16 [of lo hi]
    by simp
qed

text \<open>
  Claim C3. A decoded value is classified \<open>Valid\<close> exactly when it lies between 450 and
  2000, both ends included, and \<open>OutOfRange\<close> otherwise; either way the classification
  carries the value itself. 450 and 2000 are \<open>Valid\<close>, 449 and 2001 are \<open>OutOfRange\<close>.
  The older file classifies in the same way.
\<close>

theorem classify_range:
  "(classify v = Valid v \<longleftrightarrow> 450 \<le> sint v \<and> sint v \<le> 2000)
   \<and> (classify v = OutOfRange v \<longleftrightarrow> \<not> (450 \<le> sint v \<and> sint v \<le> 2000))
   \<and> (classify_old v = Valid v \<longleftrightarrow> 450 \<le> sint v \<and> sint v \<le> 2000)
   \<and> (classify_old v = OutOfRange v \<longleftrightarrow> \<not> (450 \<le> sint v \<and> sint v \<le> 2000))
   \<and> classify 450 = Valid 450 \<and> classify 2000 = Valid 2000
   \<and> classify 449 = OutOfRange 449 \<and> classify 2001 = OutOfRange 2001
   \<and> classify_old 450 = Valid 450 \<and> classify_old 2000 = Valid 2000
   \<and> classify_old 449 = OutOfRange 449 \<and> classify_old 2001 = OutOfRange 2001"
  by (simp add: classify_def classify_old_def)

text \<open>
  Claim C10. The two files decode and validate alike: on every byte sequence the older
  \<open>read_le_int16\<close> returns what the newer one returns, and on every decoded value the
  two range checks give the same classification.
\<close>

theorem decode_validate_variants_agree:
  "read_le_int16_old data = read_le_int16 data \<and> classify_old v = classify v"
  by (simp add: read_le_int16_old_def read_le_int16_def classify_old_def classify_def)

section \<open>Runs of the two commands\<close>

subsection \<open>A completed exchange\<close>

lemmas run_defs = returned_def fatal_def panicked_def

lemma length_ep_read [simp]: "length (fst (ep_read sc buf r)) = length buf"
  by (simp add: ep_read_def Let_def)

lemma slice_response: "slice (response t) 2 4 = Some (take 2 (drop 2 (response t)))"
  by (simp add: slice_def response_def command_frame_def)

lemma exchange_completed:
  assumes "completes t"
  shows "exchange cs ds os t =
    \<lparr>calls = cs @ [Read 0, Write command_frame, Read 16, Read 16] @ ds,
     printed = os @
       [Log ''Read %d bytes into temporary buffer'' [I 0],
        Spew ''Request data - wrote %d bytes: % x\<newline>'' [I 16, B command_frame],
        Spew ''Response data - read %d bytes: % x\<newline>''
          [I (int (min (length (fst (read2 t))) 16)), B (response t)],
        Dump (B (take 2 (drop 2 (response t)))),
        (if 450 \<le> sint (response_voc t) \<and> sint (response_voc t) \<le> 2000
         then Log ''VOC concentration: %d ppm CO2-equivalent'' [I (sint (response_voc t))]
         else Log ''ERROR: invalid VOC value %d received'' [I (sint (response_voc t))]),
        Log ''Read %d bytes into temporary buffer'' [I (int (min (length (fst (read3 t))) 16))]],
     status = 0\<rparr>"
proof -
  obtain b1 n1 e1 where r1: "ep_read (scratch t) [] (read1 t) = (b1, n1, e1)" by (cases "ep_read (scratch t) [] (read1 t)") auto
  obtain n e where w: "write_result t = (n, e)" by (cases "write_result t") auto
  obtain b2 n2 e2 where r2: "ep_read (scratch t) command_frame (read2 t) = (b2, n2, e2)" by (cases "ep_read (scratch t) command_frame (read2 t)") auto
  obtain b3 n3 e3 where r3: "ep_read (scratch t) b2 (read3 t) = (b3, n3, e3)" by (cases "ep_read (scratch t) b2 (read3 t)") auto
  have l: "length command_frame = 16" by (simp add: command_frame_def)
  have b2: "b2 = response t" using r2 by (simp add: response_def)
  have lb2: "length b2 = 16" using l length_ep_read [of "scratch t" command_frame "read2 t"] r2 by simp
  have sl: "slice b2 2 4 = Some (take 2 (drop 2 (response t)))" using b2 slice_response by simp
  have f1: "e1 = None" "n1 = 0" using r1 assms by (simp_all add: ep_read_def completes_def Let_def)
  have f2: "n = 16" using w assms by (simp add: completes_def)
  have f3: "e2 = None" "n2 = int (min (length (fst (read2 t))) 16)" using r2 assms l by (auto simp add: ep_read_def completes_def Let_def)
  have f4: "e3 = None" "n3 = int (min (length (fst (read3 t))) 16)" using r3 assms lb2 by (auto simp add: ep_read_def completes_def Let_def)
  show ?thesis
    unfolding exchange_def
    by (simp add: r1 w r2 r3 l lb2 sl f1 f2 f3 f4 b2 [symmetric] run_defs classify_def response_voc_def Let_def)
qed


lemma exchange_old_completed:
  assumes "completes_old t"
  shows "exchange_old cs ds os t =
    \<lparr>calls = cs @ [Read 0, Write command_frame, Read 16, Read 16] @ ds,
     printed = os @
       [Log ''Read %d bytes into temporary buffer'' [I 0],
        Spew ''Request data - wrote %d bytes: % x\<newline>''
          [I (fst (write_result t)), B command_frame],
        Spew ''Response data - read %d bytes: % x\<newline>''
          [I (int (min (length (fst (read2 t))) 16)), B (response t)],
        Dump (B (take 2 (drop 2 (response t)))),
        (if 450 \<le> sint (response_voc t) \<and> sint (response_voc t) \<le> 2000
         then Log ''VOC concentration: %d ppm CO2-equivalent'' [I (sint (response_voc t))]
         else Log ''ERROR: invalid value %d received'' [I (sint (response_voc t))]),
        Log ''Read %d bytes into temporary buffer'' [I (int (min (length (fst (read3 t))) 16))]],
     status = 0\<rparr>"
proof -
  obtain b1 n1 e1 where r1: "ep_read (scratch t) [] (read1 t) = (b1, n1, e1)"
    by (cases "ep_read (scratch t) [] (read1 t)") auto
  obtain n e where w: "write_result t = (n, e)"
    by (cases "write_result t") auto
  obtain b2 n2 e2 where r2: "ep_read (scratch t) command_frame (read2 t) = (b2, n2, e2)"
    by (cases "ep_read (scratch t) command_frame (read2 t)") auto
  obtain b3 n3 e3 where r3: "ep_read (scratch t) b2 (read3 t) = (b3, n3, e3)"
    by (cases "ep_read (scratch t) b2 (read3 t)") auto
  have l: "length command_frame = 16"
    by (simp add: command_frame_def)
  have b2: "b2 = response t"
    using r2 by (simp add: response_def)
  have lb2: "length b2 = 16"
    using l length_ep_read [of "scratch t" command_frame "read2 t"] r2 by simp
  have sl: "slice b2 2 4 = Some (take 2 (drop 2 (response t)))"
    using b2 slice_response by simp
  have f1: "e1 = None" "n1 = 0"
    using r1 assms by (simp_all add: ep_read_def completes_old_def Let_def)
  have f2: "e = None"
    using w assms by (simp add: completes_old_def)
  have f3: "e2 = None" "n2 = int (min (length (fst (read2 t))) 16)"
    using r2 assms l by (auto simp add: ep_read_def completes_old_def Let_def)
  have f4: "e3 = None" "n3 = int (min (length (fst (read3 t))) 16)"
    using r3 assms lb2 by (auto simp add: ep_read_def completes_old_def Let_def)
  show ?thesis
    unfolding exchange_old_def
    by (simp add: r1 w r2 r3 l lb2 sl f1 f2 f3 f4 b2 [symmetric] run_defs classify_old_def
        response_voc_def read_le_int16_old_def read_le_int16_def Let_def)
qed

lemma main_opens:
  assumes "opens a"
  shows "main f a =
     exchange [NewContext, CtxDebug (flag_debug f), OpenDeviceWithVIDPID 0x03eb 0x2013,
               DefaultInterface (fst (open_device a)), InEndpoint 1, OutEndpoint 2]
       [InterfaceDone, DeviceClose (fst (open_device a)), CtxClose]
       [Log ''Scanning for device %q...'' [S (flag_device f)]] a"
  using assms unfolding main_def opens_def
  by (cases "open_device a") (auto simp add: Let_def)

lemma main_old_opens:
  assumes "opens_old f a"
  shows "main_old f a =
     exchange_old
       [NewContext, CtxDebug (flag_debug f), ListDevices,
        OpenEndpoint (desc_handle (filter (each_match f) (attached a) ! 0))
          (word_of_int (flag_config f)) (word_of_int (flag_iface f))
          (word_of_int (flag_setup f)) 0x81,
        OpenEndpoint (desc_handle (filter (each_match f) (attached a) ! 0))
          (word_of_int (flag_config f)) (word_of_int (flag_iface f))
          (word_of_int (flag_setup f)) 0x02]
       (map (\<lambda>d. DeviceClose (Some (desc_handle d))) (filter (each_match f) (attached a))
          @ [CtxClose])
       ([Log ''Scanning for device %q...'' [S (flag_device f)]]
          @ concat (map each_printed (filter (each_match f) (attached a)))
          @ [Log ''Connecting to endpoint: '' [], Dump (Obj ''dev.Descriptor''),
             Log ''Got read endpoint: '' [], Dump (Obj ''ep_read''),
             Log ''Got write endpoint: '' [], Dump (Obj ''ep_write'')]) a"
  using assms unfolding main_old_def opens_old_def
  by (simp add: Let_def ENDPOINT_DIR_IN_def ENDPOINT_DIR_OUT_def)

lemma no_Log_each_printed: "Log s x \<notin> set (concat (map each_printed ds))"
  by (auto simp add: each_printed_def config_printed_def setup_printed_def split: prod.splits)


text \<open>
  Claim C6. When the device opens and all four transfers pass the tests of the program,
  the process exits with status 0 whether or not the decoded value lies in 450..2000. A
  value in the range is logged as the concentration; a value outside it is logged as an
  invalid value, with the value itself, and no concentration line is logged. This holds
  for both files.
\<close>

theorem completed_exchange_exits_zero:
  "(opens a \<and> completes a \<longrightarrow>
      status (main f a) = 0
      \<and> (if 450 \<le> sint (response_voc a) \<and> sint (response_voc a) \<le> 2000
          then Log ''VOC concentration: %d ppm CO2-equivalent'' [I (sint (response_voc a))]
          else Log ''ERROR: invalid VOC value %d received'' [I (sint (response_voc a))])
         \<in> set (printed (main f a))
      \<and> (\<not> (450 \<le> sint (response_voc a) \<and> sint (response_voc a) \<le> 2000) \<longrightarrow>
           (\<forall>x. Log ''VOC concentration: %d ppm CO2-equivalent'' x
                  \<notin> set (printed (main f a)))))
   \<and> (opens_old f b \<and> completes_old b \<longrightarrow>
      status (main_old f b) = 0
      \<and> (if 450 \<le> sint (response_voc b) \<and> sint (response_voc b) \<le> 2000
          then Log ''VOC concentration: %d ppm CO2-equivalent'' [I (sint (response_voc b))]
          else Log ''ERROR: invalid value %d received'' [I (sint (response_voc b))])
         \<in> set (printed (main_old f b))
      \<and> (\<not> (450 \<le> sint (response_voc b) \<and> sint (response_voc b) \<le> 2000) \<longrightarrow>
           (\<forall>x. Log ''VOC concentration: %d ppm CO2-equivalent'' x
                  \<notin> set (printed (main_old f b)))))"
proof (intro conjI impI)
  assume h: "opens a \<and> completes a"
  then have run: "main f a =
      exchange [NewContext, CtxDebug (flag_debug f), OpenDeviceWithVIDPID 0x03eb 0x2013,
                DefaultInterface (fst (open_device a)), InEndpoint 1, OutEndpoint 2]
        [InterfaceDone, DeviceClose (fst (open_device a)), CtxClose]
        [Log ''Scanning for device %q...'' [S (flag_device f)]] a"
    by (simp add: main_opens)
  from h show "status (main f a) = 0"
    unfolding run by (simp add: exchange_completed)
  from h show "(if 450 \<le> sint (response_voc a) \<and> sint (response_voc a) \<le> 2000
          then Log ''VOC concentration: %d ppm CO2-equivalent'' [I (sint (response_voc a))]
          else Log ''ERROR: invalid VOC value %d received'' [I (sint (response_voc a))])
         \<in> set (printed (main f a))"
    unfolding run by (simp add: exchange_completed)
  assume "\<not> (450 \<le> sint (response_voc a) \<and> sint (response_voc a) \<le> 2000)"
  with h show "\<forall>x. Log ''VOC concentration: %d ppm CO2-equivalent'' x
                  \<notin> set (printed (main f a))"
    unfolding run by (simp add: exchange_completed)
next
  assume h: "opens_old f b \<and> completes_old b"
  from h show "status (main_old f b) = 0"
    by (simp add: main_old_opens exchange_old_completed)
  from h show "(if 450 \<le> sint (response_voc b) \<and> sint (response_voc b) \<le> 2000
          then Log ''VOC concentration: %d ppm CO2-equivalent'' [I (sint (response_voc b))]
          else Log ''ERROR: invalid value %d received'' [I (sint (response_voc b))])
         \<in> set (printed (main_old f b))"
    by (simp add: main_old_opens exchange_old_completed)
  assume "\<not> (450 \<le> sint (response_voc b) \<and> sint (response_voc b) \<le> 2000)"
  with h show "\<forall>x. Log ''VOC concentration: %d ppm CO2-equivalent'' x
                  \<notin> set (printed (main_old f b))"
    using no_Log_each_printed
    by (simp add: main_old_opens exchange_old_completed)
qed

lemma sensor_opens: "opens (sensor resp)" "completes (sensor resp)"
  by (simp_all add: opens_def completes_def sensor_def)

lemma sensor_old_opens: "opens_old default_flags (sensor_old resp)" "completes_old (sensor_old resp)"
  by (simp_all add: opens_old_def completes_old_def sensor_old_def sensor_desc_def
      default_flags_def each_match_def)

lemma voc_FF7F: "sint (response_voc (sensor [0, 0, 0xFF, 0x7F])) = 32767"
  "sint (response_voc (sensor_old [0, 0, 0xFF, 0x7F])) = 32767"
  by (simp_all add: response_voc_def response_def sensor_def sensor_old_def ep_read_def
      command_frame_def read_le_int16_def le_uint16_def)

lemma voc_C206: "sint (response_voc (sensor [0, 0, 0xC2, 0x06])) = 1730"
  "sint (response_voc (sensor_old [0, 0, 0xC2, 0x06])) = 1730"
  by (simp_all add: response_voc_def response_def sensor_def sensor_old_def ep_read_def
      command_frame_def read_le_int16_def le_uint16_def)

text \<open>
  The two end-to-end scenarios of the specification: the response bytes \<open>0xFF 0x7F\<close>
  decode to 32767, out of range, and \<open>0xC2 0x06\<close> to 1730, in range. Both runs exit with
  status 0.
\<close>

theorem completed_exchange_exits_zero_witness:
  "opens (sensor [0, 0, 0xFF, 0x7F]) \<and> completes (sensor [0, 0, 0xFF, 0x7F])
   \<and> sint (response_voc (sensor [0, 0, 0xFF, 0x7F])) = 32767
   \<and> status (main default_flags (sensor [0, 0, 0xFF, 0x7F])) = 0
   \<and> Log ''ERROR: invalid VOC value %d received'' [I 32767]
       \<in> set (printed (main default_flags (sensor [0, 0, 0xFF, 0x7F])))
   \<and> Log ''VOC concentration: %d ppm CO2-equivalent'' [I 32767]
       \<notin> set (printed (main default_flags (sensor [0, 0, 0xFF, 0x7F])))
   \<and> opens_old default_flags (sensor_old [0, 0, 0xFF, 0x7F])
   \<and> completes_old (sensor_old [0, 0, 0xFF, 0x7F])
   \<and> status (main_old default_flags (sensor_old [0, 0, 0xFF, 0x7F])) = 0
   \<and> Log ''ERROR: invalid value %d received'' [I 32767]
       \<in> set (printed (main_old default_flags (sensor_old [0, 0, 0xFF, 0x7F])))
   \<and> Log ''VOC concentration: %d ppm CO2-equivalent'' [I 32767]
       \<notin> set (printed (main_old default_flags (sensor_old [0, 0, 0xFF, 0x7F])))
   \<and> status (main default_flags (sensor [0, 0, 0xC2, 0x06])) = 0
   \<and> Log ''VOC concentration: %d ppm CO2-equivalent'' [I 1730]
       \<in> set (printed (main default_flags (sensor [0, 0, 0xC2, 0x06])))
   \<and> status (main_old default_flags (sensor_old [0, 0, 0xC2, 0x06])) = 0
   \<and> Log ''VOC concentration: %d ppm CO2-equivalent'' [I 1730]
       \<in> set (printed (main_old default_flags (sensor_old [0, 0, 0xC2, 0x06])))"
  using completed_exchange_exits_zero [of "sensor [0, 0, 0xFF, 0x7F]" default_flags
      "sensor_old [0, 0, 0xFF, 0x7F]"]
    completed_exchange_exits_zero [of "sensor [0, 0, 0xC2, 0x06]" default_flags
      "sensor_old [0, 0, 0xC2, 0x06]"] sensor_opens sensor_old_opens
  by (simp add: voc_FF7F voc_C206)

subsection \<open>The first read and the reused buffer\<close>

lemma ep_read_empty: "ep_read sc [] r = ([], 0, snd r)"
  by (simp add: ep_read_def)

lemma exchange_first_call:
  "take (Suc (length cs)) (calls (exchange cs ds os t)) = cs @ [Read 0]"
  by (simp add: exchange_def ep_read_empty Let_def run_defs split: prod.splits option.splits)

lemma exchange_old_first_call:
  "take (Suc (length cs)) (calls (exchange_old cs ds os t)) = cs @ [Read 0]"
  by (simp add: exchange_old_def ep_read_empty Let_def run_defs split: prod.splits option.splits)

lemma exchange_first_line:
  "take (Suc (length os)) (printed (exchange cs ds os t)) =
     os @ [if snd (read1 t) = None then Log ''Read %d bytes into temporary buffer'' [I 0]
           else Log ''Failed to read pending bytes into buffer'' []]"
  by (simp add: exchange_def ep_read_empty Let_def run_defs split: prod.splits option.splits)

lemma exchange_old_first_line:
  "take (Suc (length os)) (printed (exchange_old cs ds os t)) =
     os @ [if snd (read1 t) = None then Log ''Read %d bytes into temporary buffer'' [I 0]
           else Log ''Failed to read pending bytes into buffer'' []]"
  by (simp add: exchange_old_def ep_read_empty Let_def run_defs split: prod.splits option.splits)



















text \<open>
  Claim C8. In both files the first read is made with the nil buffer: the call is
  \<open>Read 0\<close>, it stores no byte whatever the transport holds, and the count it reports
  and the program logs is 0.
\<close>

theorem first_read_has_empty_buffer:
  "ep_read sc [] r = ([], 0, snd r)
   \<and> take (Suc (length cs)) (calls (exchange cs ds os t)) = cs @ [Read 0]
   \<and> take (Suc (length os)) (printed (exchange cs ds os t)) =
       os @ [if snd (read1 t) = None then Log ''Read %d bytes into temporary buffer'' [I 0]
             else Log ''Failed to read pending bytes into buffer'' []]
   \<and> take (Suc (length cs)) (calls (exchange_old cs ds os t)) = cs @ [Read 0]
   \<and> take (Suc (length os)) (printed (exchange_old cs ds os t)) =
       os @ [if snd (read1 t) = None then Log ''Read %d bytes into temporary buffer'' [I 0]
             else Log ''Failed to read pending bytes into buffer'' []]
   \<and> (opens a \<longrightarrow>
        take 7 (calls (main f a)) =
          [NewContext, CtxDebug (flag_debug f), OpenDeviceWithVIDPID 0x03eb 0x2013,
           DefaultInterface (fst (open_device a)), InEndpoint 1, OutEndpoint 2, Read 0])
   \<and> (opens_old f b \<longrightarrow>
        take 6 (calls (main_old f b)) =
          [NewContext, CtxDebug (flag_debug f), ListDevices,
           OpenEndpoint (desc_handle (filter (each_match f) (attached b) ! 0))
             (word_of_int (flag_config f)) (word_of_int (flag_iface f))
             (word_of_int (flag_setup f)) 0x81,
           OpenEndpoint (desc_handle (filter (each_match f) (attached b) ! 0))
             (word_of_int (flag_config f)) (word_of_int (flag_iface f))
             (word_of_int (flag_setup f)) 0x02,
           Read 0])"
proof -
  have new: "take 7 (calls (main f a)) =
          [NewContext, CtxDebug (flag_debug f), OpenDeviceWithVIDPID 0x03eb 0x2013,
           DefaultInterface (fst (open_device a)), InEndpoint 1, OutEndpoint 2, Read 0]"
    if "opens a"
    using exchange_first_call [of "[NewContext, CtxDebug (flag_debug f),
        OpenDeviceWithVIDPID 0x03eb 0x2013, DefaultInterface (fst (open_device a)),
        InEndpoint 1, OutEndpoint 2]" _ _ a] that
    by (simp add: main_opens eval_nat_numeral)
  have old: "take 6 (calls (main_old f b)) =
          [NewContext, CtxDebug (flag_debug f), ListDevices,
           OpenEndpoint (desc_handle (filter (each_match f) (attached b) ! 0))
             (word_of_int (flag_config f)) (word_of_int (flag_iface f))
             (word_of_int (flag_setup f)) 0x81,
           OpenEndpoint (desc_handle (filter (each_match f) (attached b) ! 0))
             (word_of_int (flag_config f)) (word_of_int (flag_iface f))
             (word_of_int (flag_setup f)) 0x02,
           Read 0]"
    if "opens_old f b"
    using exchange_old_first_call [of "[NewContext, CtxDebug (flag_debug f), ListDevices,
           OpenEndpoint (desc_handle (filter (each_match f) (attached b) ! 0))
             (word_of_int (flag_config f)) (word_of_int (flag_iface f))
             (word_of_int (flag_setup f)) 0x81,
           OpenEndpoint (desc_handle (filter (each_match f) (attached b) ! 0))
             (word_of_int (flag_config f)) (word_of_int (flag_iface f))
             (word_of_int (flag_setup f)) 0x02]" _ _ b] that
    by (simp add: main_old_opens eval_nat_numeral)
  show ?thesis
    using new old
    by (simp only: ep_read_empty exchange_first_call exchange_first_line
        exchange_old_first_call exchange_old_first_line) simp
qed

theorem first_read_has_empty_buffer_witness:
  "opens ((sensor [])\<lparr>read1 := ([9, 9, 9], None)\<rparr>)
   \<and> take 7 (calls (main default_flags ((sensor [])\<lparr>read1 := ([9, 9, 9], None)\<rparr>))) =
       [NewContext, CtxDebug 3, OpenDeviceWithVIDPID 0x03eb 0x2013, DefaultInterface (Some 1),
        InEndpoint 1, OutEndpoint 2, Read 0]
   \<and> opens_old default_flags ((sensor_old [])\<lparr>read1 := ([9, 9, 9], None)\<rparr>)
   \<and> take 6 (calls (main_old default_flags ((sensor_old [])\<lparr>read1 := ([9, 9, 9], None)\<rparr>))) =
       [NewContext, CtxDebug 3, ListDevices, OpenEndpoint 1 1 0 0 0x81,
        OpenEndpoint 1 1 0 0 0x02, Read 0]"
  using first_read_has_empty_buffer [where sc = "[]" and r = "([], None)" and cs = "[]"
      and ds = "[]" and os = "[]" and t = "sensor []"
      and a = "(sensor [])\<lparr>read1 := ([9, 9, 9], None)\<rparr>"
      and f = default_flags and b = "(sensor_old [])\<lparr>read1 := ([9, 9, 9], None)\<rparr>"]
  by (simp add: opens_def opens_old_def sensor_def sensor_old_def sensor_desc_def
      default_flags_def each_match_def)





subsection \<open>The endpoints opened\<close>

lemma calls_exchange:
  "set (calls (exchange cs ds os t)) \<subseteq> set cs \<union> set ds \<union> range Read \<union> range Write"
  by (auto simp add: exchange_def Let_def run_defs split: prod.splits option.splits)

lemma calls_exchange_old:
  "set (calls (exchange_old cs ds os t)) \<subseteq> set cs \<union> set ds \<union> range Read \<union> range Write"
  by (auto simp add: exchange_old_def Let_def run_defs split: prod.splits option.splits)

lemma in_endpoint_calls:
  assumes "InEndpoint n \<in> set (calls (main f a))"
  shows "n = 1"
proof (cases "opens a")
  case True
  then show ?thesis
    using assms calls_exchange by (fastforce simp add: main_opens)
next
  case False
  then show ?thesis
    using assms unfolding main_def opens_def
    by (cases "open_device a") (auto simp add: Let_def run_defs split: if_splits)
qed

lemma out_endpoint_calls:
  assumes "OutEndpoint n \<in> set (calls (main f a))"
  shows "n = 2"
proof (cases "opens a")
  case True
  then show ?thesis
    using assms calls_exchange by (fastforce simp add: main_opens)
next
  case False
  then show ?thesis
    using assms unfolding main_def opens_def
    by (cases "open_device a") (auto simp add: Let_def run_defs split: if_splits)
qed

lemma open_endpoint_calls:
  assumes "OpenEndpoint d c i s ep \<in> set (calls (main_old f b))"
  shows "ep = 0x81 \<or> ep = 0x02"
proof (cases "opens_old f b")
  case True
  then show ?thesis
    using assms calls_exchange_old by (fastforce simp add: main_old_opens)
next
  case False
  then show ?thesis
    using assms unfolding main_old_def opens_old_def
    by (auto simp add: Let_def run_defs ENDPOINT_DIR_IN_def ENDPOINT_DIR_OUT_def
        split: if_splits)
qed

lemma main_flag_endpoint: "main (f\<lparr>flag_endpoint := e\<rparr>) a = main f a"
  by (simp add: main_def Let_def)

lemma each_match_flag_endpoint: "each_match (f\<lparr>flag_endpoint := e\<rparr>) = each_match f"
  by (simp add: fun_eq_iff each_match_def)

lemma main_old_flag_endpoint: "main_old (f\<lparr>flag_endpoint := e\<rparr>) b = main_old f b"
  by (simp add: main_old_def each_match_flag_endpoint Let_def)


text \<open>
  Claim C5, as the code has it. Both files open fixed endpoints: main.go the IN endpoint
  1 and the OUT endpoint 2, the older file the addresses \<open>0x81\<close> and \<open>0x02\<close> (endpoint 1
  in, endpoint 2 out). The \<^verbatim>\<open>endpoint\<close> flag is declared and never read: a run does not
  depend on it.
\<close>

theorem endpoints_are_fixed:
  "main (f\<lparr>flag_endpoint := e\<rparr>) a = main f a
   \<and> main_old (f\<lparr>flag_endpoint := e\<rparr>) b = main_old f b
   \<and> (InEndpoint n \<in> set (calls (main f a)) \<longrightarrow> n = 1)
   \<and> (OutEndpoint n \<in> set (calls (main f a)) \<longrightarrow> n = 2)
   \<and> (OpenEndpoint d c i s ep \<in> set (calls (main_old f b)) \<longrightarrow> ep = 0x81 \<or> ep = 0x02)
   \<and> (opens a \<longrightarrow>
        InEndpoint 1 \<in> set (calls (main f a)) \<and> OutEndpoint 2 \<in> set (calls (main f a)))
   \<and> (opens_old f b \<longrightarrow>
        OpenEndpoint (desc_handle (filter (each_match f) (attached b) ! 0))
          (word_of_int (flag_config f)) (word_of_int (flag_iface f))
          (word_of_int (flag_setup f)) 0x81 \<in> set (calls (main_old f b))
        \<and> OpenEndpoint (desc_handle (filter (each_match f) (attached b) ! 0))
          (word_of_int (flag_config f)) (word_of_int (flag_iface f))
          (word_of_int (flag_setup f)) 0x02 \<in> set (calls (main_old f b)))"
proof -
  have new: "InEndpoint 1 \<in> set (calls (main f a)) \<and> OutEndpoint 2 \<in> set (calls (main f a))"
    if "opens a"
  proof -
    have "set (take 7 (calls (main f a))) \<subseteq> set (calls (main f a))"
      by (rule set_take_subset)
    moreover have "take 7 (calls (main f a)) =
          [NewContext, CtxDebug (flag_debug f), OpenDeviceWithVIDPID 0x03eb 0x2013,
           DefaultInterface (fst (open_device a)), InEndpoint 1, OutEndpoint 2, Read 0]"
      using exchange_first_call [of "[NewContext, CtxDebug (flag_debug f),
        OpenDeviceWithVIDPID 0x03eb 0x2013, DefaultInterface (fst (open_device a)),
        InEndpoint 1, OutEndpoint 2]" _ _ a] that
      by (simp add: main_opens eval_nat_numeral)
    ultimately show ?thesis by simp
  qed
  have old: "OpenEndpoint (desc_handle (filter (each_match f) (attached b) ! 0))
          (word_of_int (flag_config f)) (word_of_int (flag_iface f))
          (word_of_int (flag_setup f)) 0x81 \<in> set (calls (main_old f b))
        \<and> OpenEndpoint (desc_handle (filter (each_match f) (attached b) ! 0))
          (word_of_int (flag_config f)) (word_of_int (flag_iface f))
          (word_of_int (flag_setup f)) 0x02 \<in> set (calls (main_old f b))"
    if "opens_old f b"
  proof -
    have "set (take 6 (calls (main_old f b))) \<subseteq> set (calls (main_old f b))"
      by (rule set_take_subset)
    moreover have "take 6 (calls (main_old f b)) =
          [NewContext, CtxDebug (flag_debug f), ListDevices,
           OpenEndpoint (desc_handle (filter (each_match f) (attached b) ! 0))
             (word_of_int (flag_config f)) (word_of_int (flag_iface f))
             (word_of_int (flag_setup f)) 0x81,
           OpenEndpoint (desc_handle (filter (each_match f) (attached b) ! 0))
             (word_of_int (flag_config f)) (word_of_int (flag_iface f))
             (word_of_int (flag_setup f)) 0x02,
           Read 0]"
      using exchange_old_first_call [of "[NewContext, CtxDebug (flag_debug f), ListDevices,
           OpenEndpoint (desc_handle (filter (each_match f) (attached b) ! 0))
             (word_of_int (flag_config f)) (word_of_int (flag_iface f))
             (word_of_int (flag_setup f)) 0x81,
           OpenEndpoint (desc_handle (filter (each_match f) (attached b) ! 0))
             (word_of_int (flag_config f)) (word_of_int (flag_iface f))
             (word_of_int (flag_setup f)) 0x02]" _ _ b] that
      by (simp add: main_old_opens eval_nat_numeral)
    ultimately show ?thesis by simp
  qed
  show ?thesis
    using new old main_flag_endpoint main_old_flag_endpoint
      in_endpoint_calls [of n f a] out_endpoint_calls [of n f a]
      open_endpoint_calls [of d c i s ep f b]
    by blast
qed

theorem endpoints_are_fixed_witness:
  "opens (sensor []) \<and> opens_old default_flags (sensor_old [])
   \<and> main (default_flags\<lparr>flag_endpoint := 5\<rparr>) (sensor []) = main default_flags (sensor [])
   \<and> InEndpoint 1 \<in> set (calls (main (default_flags\<lparr>flag_endpoint := 5\<rparr>) (sensor [])))
   \<and> OutEndpoint 2 \<in> set (calls (main (default_flags\<lparr>flag_endpoint := 5\<rparr>) (sensor [])))
   \<and> OpenEndpoint 1 1 0 0 0x81 \<in> set (calls (main_old default_flags (sensor_old [])))
   \<and> OpenEndpoint 1 1 0 0 0x02 \<in> set (calls (main_old default_flags (sensor_old [])))"
proof -
  have h: "desc_handle (filter (each_match default_flags) (attached (sensor_old [])) ! 0) = 1"
    "flag_config default_flags = 1" "flag_iface default_flags = 0" "flag_setup default_flags = 0"
    by (simp_all add: sensor_old_def sensor_desc_def default_flags_def each_match_def)
  show ?thesis
    using endpoints_are_fixed [where f = default_flags and e = 5 and a = "sensor []"
        and b = "sensor_old []"]
      sensor_opens [of "[]"] sensor_old_opens [of "[]"]
    by (simp add: h)
qed

text \<open>
  The claim as stated fails: with the flag \<^verbatim>\<open>-endpoint=5\<close> the endpoints opened are
  still 1 and 2, and no endpoint 5 is opened, in either file.
\<close>

theorem endpoint_flag_counterexample:
  "flag_endpoint (default_flags\<lparr>flag_endpoint := 5\<rparr>) = 5
   \<and> InEndpoint 1 \<in> set (calls (main (default_flags\<lparr>flag_endpoint := 5\<rparr>) (sensor [])))
   \<and> OutEndpoint 2 \<in> set (calls (main (default_flags\<lparr>flag_endpoint := 5\<rparr>) (sensor [])))
   \<and> InEndpoint 5 \<notin> set (calls (main (default_flags\<lparr>flag_endpoint := 5\<rparr>) (sensor [])))
   \<and> OutEndpoint 5 \<notin> set (calls (main (default_flags\<lparr>flag_endpoint := 5\<rparr>) (sensor [])))
   \<and> calls (main_old (default_flags\<lparr>flag_endpoint := 5\<rparr>) (sensor_old [])) =
       [NewContext, CtxDebug 3, ListDevices, OpenEndpoint 1 1 0 0 0x81,
        OpenEndpoint 1 1 0 0 0x02, Read 0, Write command_frame, Read 16, Read 16,
        DeviceClose (Some 1), CtxClose]"
proof -
  have new: "calls (main (default_flags\<lparr>flag_endpoint := 5\<rparr>) (sensor [])) =
       [NewContext, CtxDebug 3, OpenDeviceWithVIDPID 0x03eb 0x2013, DefaultInterface (Some 1),
        InEndpoint 1, OutEndpoint 2, Read 0, Write command_frame, Read 16, Read 16,
        InterfaceDone, DeviceClose (Some 1), CtxClose]"
    using sensor_opens [of "[]"]
    by (simp add: main_opens exchange_completed) (simp add: sensor_def default_flags_def)
  have f: "opens_old (default_flags\<lparr>flag_endpoint := 5\<rparr>) (sensor_old [])"
    by (simp add: opens_old_def sensor_old_def sensor_desc_def default_flags_def each_match_def)
  have old: "calls (main_old (default_flags\<lparr>flag_endpoint := 5\<rparr>) (sensor_old [])) =
       [NewContext, CtxDebug 3, ListDevices, OpenEndpoint 1 1 0 0 0x81,
        OpenEndpoint 1 1 0 0 0x02, Read 0, Write command_frame, Read 16, Read 16,
        DeviceClose (Some 1), CtxClose]"
    using f sensor_old_opens(2) [of "[]"]
    by (simp add: main_old_opens exchange_old_completed)
      (simp add: sensor_old_def sensor_desc_def default_flags_def each_match_def)
  show ?thesis
    unfolding new old by simp
qed


subsection \<open>Exits and release\<close>

lemma fatal_exchange_calls:
  assumes "status (exchange cs ds os t) = 1"
  shows "\<exists>rs. calls (exchange cs ds os t) = cs @ rs \<and> set rs \<subseteq> range Read \<union> range Write"
  using assms
  by (auto simp add: exchange_def Let_def run_defs split: prod.splits option.splits if_splits)

lemma fatal_exchange_old_calls:
  assumes "status (exchange_old cs ds os t) = 1"
  shows "\<exists>rs. calls (exchange_old cs ds os t) = cs @ rs \<and> set rs \<subseteq> range Read \<union> range Write"
  using assms
  by (auto simp add: exchange_old_def Let_def run_defs split: prod.splits option.splits if_splits)

lemma fatal_run_releases_nothing:
  assumes "status (main f a) = 1"
  shows "InterfaceDone \<notin> set (calls (main f a)) \<and> DeviceClose d \<notin> set (calls (main f a))
         \<and> CtxClose \<notin> set (calls (main f a))"
proof (cases "opens a")
  case True
  obtain cs ds os where run: "main f a = exchange cs ds os a"
    and cs: "set cs \<inter> ({InterfaceDone, CtxClose} \<union> range DeviceClose) = {}"
    by (rule that [OF main_opens [OF True]]) auto
  from assms obtain rs where "calls (main f a) = cs @ rs"
    and "set rs \<subseteq> range Read \<union> range Write"
    unfolding run using fatal_exchange_calls by blast
  with cs show ?thesis by auto
next
  case False
  then show ?thesis
    using assms unfolding main_def opens_def
    by (cases "open_device a") (auto simp add: Let_def run_defs split: if_splits)
qed

lemma fatal_run_old_releases_nothing:
  assumes "status (main_old f b) = 1"
  shows "DeviceClose d \<notin> set (calls (main_old f b)) \<and> CtxClose \<notin> set (calls (main_old f b))"
proof (cases "opens_old f b")
  case True
  obtain cs ds os where run: "main_old f b = exchange_old cs ds os b"
    and cs: "set cs \<inter> ({InterfaceDone, CtxClose} \<union> range DeviceClose) = {}"
    by (rule that [OF main_old_opens [OF True]]) auto
  from assms obtain rs where "calls (main_old f b) = cs @ rs"
    and "set rs \<subseteq> range Read \<union> range Write"
    unfolding run using fatal_exchange_old_calls by blast
  with cs show ?thesis by auto
next
  case False
  then show ?thesis
    using assms unfolding main_old_def opens_old_def
    by (auto simp add: Let_def run_defs ENDPOINT_DIR_IN_def ENDPOINT_DIR_OUT_def
        split: if_splits)
qed


lemma completed_run_releases:
  assumes "opens a" and "completes a"
  shows "calls (main f a) =
     [NewContext, CtxDebug (flag_debug f), OpenDeviceWithVIDPID 0x03eb 0x2013,
      DefaultInterface (fst (open_device a)), InEndpoint 1, OutEndpoint 2,
      Read 0, Write command_frame, Read 16, Read 16,
      InterfaceDone, DeviceClose (fst (open_device a)), CtxClose]"
  using assms by (simp add: main_opens exchange_completed)

text \<open>
  Claim C1 fails on the code. A run that ends in \<^verbatim>\<open>log.Fatal\<close> or \<^verbatim>\<open>log.Fatalf\<close>
  leaves through \<^verbatim>\<open>os.Exit(1)\<close> and the deferred calls never run. In main.go, with the
  device open, the interface claimed and both endpoints open, a write of 10 of the 16
  bytes ends the run with status 1 after the \<open>Write\<close>: no \<open>InterfaceDone\<close>, no
  \<open>DeviceClose\<close>, no \<open>CtxClose\<close>. In the older file a failed read of the response ends
  the run the same way, with the device and the context left open.
\<close>

theorem fatal_exit_skips_release:
  "main default_flags ((sensor [])\<lparr>write_result := (10, None)\<rparr>) =
     \<lparr>calls = [NewContext, CtxDebug 3, OpenDeviceWithVIDPID 0x03eb 0x2013,
               DefaultInterface (Some 1), InEndpoint 1, OutEndpoint 2, Read 0,
               Write command_frame],
      printed = [Log ''Scanning for device %q...'' [S ''03eb:2013''],
                 Log ''Read %d bytes into temporary buffer'' [I 0],
                 Log ''Failed to write request command: %s'' [E None]],
      status = 1\<rparr>
   \<and> main_old default_flags ((sensor_old [])\<lparr>read2 := ([], Some ''timeout'')\<rparr>) =
     \<lparr>calls = [NewContext, CtxDebug 3, ListDevices, OpenEndpoint 1 1 0 0 0x81,
               OpenEndpoint 1 1 0 0 0x02, Read 0, Write command_frame, Read 16],
      printed = [Log ''Scanning for device %q...'' [S ''03eb:2013''],
                 Fmt ''  Protocol: %s\<newline>'' [S ''Unknown''],
                 Log ''Connecting to endpoint: '' [], Dump (Obj ''dev.Descriptor''),
                 Log ''Got read endpoint: '' [], Dump (Obj ''ep_read''),
                 Log ''Got write endpoint: '' [], Dump (Obj ''ep_write''),
                 Log ''Read %d bytes into temporary buffer'' [I 0],
                 Spew ''Request data - wrote %d bytes: % x\<newline>'' [I 16, B command_frame],
                 Log ''Failed to read pending bytes into buffer'' []],
      status = 1\<rparr>"
proof -
  have l: "length command_frame = 16"
    by (simp add: command_frame_def)
  have new: "opens ((sensor [])\<lparr>write_result := (10, None)\<rparr>)"
    by (simp add: opens_def sensor_def)
  have old: "opens_old default_flags ((sensor_old [])\<lparr>read2 := ([], Some ''timeout'')\<rparr>)"
    by (simp add: opens_old_def sensor_old_def sensor_desc_def default_flags_def each_match_def)
  have "main default_flags ((sensor [])\<lparr>write_result := (10, None)\<rparr>) =
     \<lparr>calls = [NewContext, CtxDebug 3, OpenDeviceWithVIDPID 0x03eb 0x2013,
               DefaultInterface (Some 1), InEndpoint 1, OutEndpoint 2, Read 0,
               Write command_frame],
      printed = [Log ''Scanning for device %q...'' [S ''03eb:2013''],
                 Log ''Read %d bytes into temporary buffer'' [I 0],
                 Log ''Failed to write request command: %s'' [E None]],
      status = 1\<rparr>"
    unfolding main_opens [OF new] exchange_def
    by (simp add: sensor_def default_flags_def ep_read_def l run_defs)
  moreover have "main_old default_flags ((sensor_old [])\<lparr>read2 := ([], Some ''timeout'')\<rparr>) =
     \<lparr>calls = [NewContext, CtxDebug 3, ListDevices, OpenEndpoint 1 1 0 0 0x81,
               OpenEndpoint 1 1 0 0 0x02, Read 0, Write command_frame, Read 16],
      printed = [Log ''Scanning for device %q...'' [S ''03eb:2013''],
                 Fmt ''  Protocol: %s\<newline>'' [S ''Unknown''],
                 Log ''Connecting to endpoint: '' [], Dump (Obj ''dev.Descriptor''),
                 Log ''Got read endpoint: '' [], Dump (Obj ''ep_read''),
                 Log ''Got write endpoint: '' [], Dump (Obj ''ep_write''),
                 Log ''Read %d bytes into temporary buffer'' [I 0],
                 Spew ''Request data - wrote %d bytes: % x\<newline>'' [I 16, B command_frame],
                 Log ''Failed to read pending bytes into buffer'' []],
      status = 1\<rparr>"
    unfolding main_old_opens [OF old] exchange_old_def
    by (simp add: sensor_old_def sensor_desc_def default_flags_def each_match_def
        each_printed_def ep_read_def l run_defs)
  ultimately show ?thesis by simp
qed

subsection \<open>The test after the write\<close>

lemma short_write_is_fatal:
  assumes "opens a" and "snd (read1 a) = None" and "fst (write_result a) \<noteq> 16"
  shows "main f a =
     \<lparr>calls = [NewContext, CtxDebug (flag_debug f), OpenDeviceWithVIDPID 0x03eb 0x2013,
               DefaultInterface (fst (open_device a)), InEndpoint 1, OutEndpoint 2, Read 0,
               Write command_frame],
      printed = [Log ''Scanning for device %q...'' [S (flag_device f)],
                 Log ''Read %d bytes into temporary buffer'' [I 0],
                 Log ''Failed to write request command: %s'' [E (snd (write_result a))]],
      status = 1\<rparr>"
proof -
  have l: "length command_frame = 16"
    by (simp add: command_frame_def)
  show ?thesis
    unfolding main_opens [OF assms(1)] exchange_def
    using assms(2,3)
    by (cases "write_result a") (simp add: ep_read_def l run_defs)
qed

text \<open>
  Claim C4 fails on the older file. Its test after the write is on the error, not on the
  count: when \<^verbatim>\<open>Write\<close> returns 10 and a nil error, the run goes on, reads the
  response, logs the reading and exits with status 0. main.go tests the count and ends
  such a run with \<^verbatim>\<open>log.Fatalf\<close>.
\<close>

theorem short_write_goes_on_old:
  "fst (write_result ((sensor_old [0, 0, 0xC2, 0x06])\<lparr>write_result := (10, None)\<rparr>)) < 16
   \<and> main_old default_flags ((sensor_old [0, 0, 0xC2, 0x06])\<lparr>write_result := (10, None)\<rparr>) =
     \<lparr>calls = [NewContext, CtxDebug 3, ListDevices, OpenEndpoint 1 1 0 0 0x81,
               OpenEndpoint 1 1 0 0 0x02, Read 0, Write command_frame, Read 16, Read 16,
               DeviceClose (Some 1), CtxClose],
      printed = [Log ''Scanning for device %q...'' [S ''03eb:2013''],
                 Fmt ''  Protocol: %s\<newline>'' [S ''Unknown''],
                 Log ''Connecting to endpoint: '' [], Dump (Obj ''dev.Descriptor''),
                 Log ''Got read endpoint: '' [], Dump (Obj ''ep_read''),
                 Log ''Got write endpoint: '' [], Dump (Obj ''ep_write''),
                 Log ''Read %d bytes into temporary buffer'' [I 0],
                 Spew ''Request data - wrote %d bytes: % x\<newline>'' [I 10, B command_frame],
                 Spew ''Response data - read %d bytes: % x\<newline>''
                   [I 4, B [0, 0, 0xC2, 0x06, 0x52, 0x0a, 0x40, 0x40,
                            0x40, 0x40, 0x40, 0x40, 0x40, 0x40, 0x40, 0x40]],
                 Dump (B [0xC2, 0x06]),
                 Log ''VOC concentration: %d ppm CO2-equivalent'' [I 1730],
                 Log ''Read %d bytes into temporary buffer'' [I 0]],
      status = 0\<rparr>"
proof -
  let ?b = "(sensor_old [0, 0, 0xC2, 0x06])\<lparr>write_result := (10, None)\<rparr>"
  have o: "opens_old default_flags ?b"
    by (simp add: opens_old_def sensor_old_def sensor_desc_def default_flags_def each_match_def)
  have c: "completes_old ?b"
    by (simp add: completes_old_def sensor_old_def)
  have r: "response ?b = [0, 0, 0xC2, 0x06, 0x52, 0x0a, 0x40, 0x40,
                            0x40, 0x40, 0x40, 0x40, 0x40, 0x40, 0x40, 0x40]"
    by (simp add: response_def sensor_old_def ep_read_def command_frame_def)
  have v: "sint (response_voc ?b) = 1730"
    by (simp add: response_voc_def r read_le_int16_def le_uint16_def)
  show ?thesis
    unfolding main_old_opens [OF o] exchange_old_completed [OF c] r v
    by (simp add: sensor_old_def sensor_desc_def default_flags_def each_match_def
        each_printed_def)
qed

subsection \<open>No device found\<close>

lemma no_devices_found_old:
  assumes "list_err b = None" and "filter (each_match f) (attached b) = []"
  shows "main_old f b =
     \<lparr>calls = [NewContext, CtxDebug (flag_debug f), ListDevices],
      printed = [Log ''Scanning for device %q...'' [S (flag_device f)],
                 Log ''no devices found'' []],
      status = 1\<rparr>"
  using assms by (simp add: main_old_def Let_def run_defs)

lemma open_error_is_fatal:
  assumes "snd (open_device a) \<noteq> None"
  shows "main f a =
     \<lparr>calls = [NewContext, CtxDebug (flag_debug f), OpenDeviceWithVIDPID 0x03eb 0x2013],
      printed = [Log ''Scanning for device %q...'' [S (flag_device f)],
                 Log ''Could not open a device: %v'' [E (snd (open_device a))]],
      status = 1\<rparr>"
  using assms by (cases "open_device a") (auto simp add: main_def Let_def run_defs)

text \<open>
  Claim C7 fails on main.go. When no device matches, \<^verbatim>\<open>OpenDeviceWithVIDPID\<close> returns
  a nil device and a nil error; the program tests the error only, so it does not stop
  with a message: it calls \<^verbatim>\<open>DefaultInterface\<close> on the nil device and ends in a
  panic, with status 2 and nothing logged after the first line. The older file tests the
  number of devices and stops with \<^verbatim>\<open>no devices found\<close>.
\<close>

theorem no_device_panics:
  "main default_flags ((sensor [])\<lparr>open_device := (None, None)\<rparr>) =
     \<lparr>calls = [NewContext, CtxDebug 3, OpenDeviceWithVIDPID 0x03eb 0x2013,
               DefaultInterface None, DeviceClose None, CtxClose],
      printed = [Log ''Scanning for device %q...'' [S ''03eb:2013'']],
      status = 2\<rparr>
   \<and> main_old default_flags ((sensor_old [])\<lparr>attached := []\<rparr>) =
     \<lparr>calls = [NewContext, CtxDebug 3, ListDevices],
      printed = [Log ''Scanning for device %q...'' [S ''03eb:2013''],
                 Log ''no devices found'' []],
      status = 1\<rparr>"
  by (simp add: main_def main_old_def sensor_def sensor_old_def default_flags_def Let_def
      run_defs)

end
